theory Spec2Isabelle
  imports Main "HOL-Library.Sublist" "HOL-Library.AList"
begin

section \<open>Values of the run-time\<close>

text \<open>
  The application is TypeScript; at run time a recipe is whatever \<open>JSON.parse\<close> returned,
  extended by three properties. Values are therefore modelled as JSON trees. An object is
  the list of its properties in insertion order; \<open>AList.update\<close> is assignment to a
  property (an existing key keeps its place, a new key goes last). The response schema of
  the recipe has no numeric field and \<open>Date.now()\<close> is a whole number of milliseconds, so
  finite numbers are integers. \<open>JInfinity\<close> and \<open>JNegInfinity\<close> are the two infinite
  numbers, which \<open>JSON.parse\<close> returns for a literal beyond the range of a double (such as
  \<open>1e999\<close>) and which \<open>JSON.stringify\<close> writes as \<open>null\<close>.
\<close>

datatype json =
    JNull
  | JBool bool
  | JNum int
  | JInfinity
  | JNegInfinity
  | JStr string
  | JArr "json list"
  | JObj "(string \<times> json) list"

text \<open>
  A thrown value. \<open>Error m\<close> is \<open>new Error(m)\<close>, thrown by the application itself;
  \<open>Thrown m\<close> is anything the platform or the provider SDK throws or rejects with, with
  its \<open>message\<close> property when it has one.
\<close>

datatype error = Error string | Thrown "string option"

fun message :: "error \<Rightarrow> string option" where
  "message (Error m) = Some m"
| "message (Thrown m) = m"

text \<open>Truthiness of a \<open>string | null | undefined\<close>: absent and the empty string are falsy.\<close>

fun truthy :: "string option \<Rightarrow> bool" where
  "truthy None = False"
| "truthy (Some s) = (s \<noteq> [])"

text \<open>The string itself, once the value is known to be truthy.\<close>

fun string_value :: "string option \<Rightarrow> string" where
  "string_value None = []"
| "string_value (Some s) = s"

text \<open>\<open>a || b\<close> on such a value.\<close>

fun or_else :: "string option \<Rightarrow> string \<Rightarrow> string" where
  "or_else None d = d"
| "or_else (Some s) d = (if s = [] then d else s)"

text \<open>\<open>Array.prototype.join\<close> on an array of strings.\<close>

fun join :: "string \<Rightarrow> string list \<Rightarrow> string" where
  "join sep [] = []"
| "join sep [x] = x"
| "join sep (x # y # ys) = x @ sep @ join sep (y # ys)"

text \<open>\<open>String.prototype.includes\<close>: the argument occurs as a contiguous run of characters.\<close>

fun includes_str :: "string \<Rightarrow> string \<Rightarrow> bool" where
  "includes_str [] sub = (sub = [])"
| "includes_str (c # cs) sub = (prefix sub (c # cs) \<or> includes_str cs sub)"

text \<open>\<open>Number.prototype.toString\<close> on an integer: decimal digits, a minus sign when negative.\<close>

fun string_of_nat :: "nat \<Rightarrow> string" where
  "string_of_nat n =
     (if n < 10 then [char_of (48 + n)]
      else string_of_nat (n div 10) @ [char_of (48 + n mod 10)])"

declare string_of_nat.simps [simp del]

definition toString :: "int \<Rightarrow> string" where
  "toString i = (if i < 0 then CHR ''-'' # string_of_nat (nat (- i)) else string_of_nat (nat i))"

text \<open>
  Object spread \<open>{...v}\<close> copies the own enumerable properties of \<open>v\<close>: those of an object,
  the indexed elements of an array, the indexed characters of a string, and nothing for
  \<open>null\<close>, a boolean or a number.
\<close>

fun spread :: "json \<Rightarrow> (string \<times> json) list" where
  "spread (JObj fs) = fs"
| "spread (JArr xs) = zip (map string_of_nat [0..<length xs]) xs"
| "spread (JStr s) = zip (map string_of_nat [0..<length s]) (map (\<lambda>c. JStr [c]) s)"
| "spread _ = []"

text \<open>
  Array spread \<open>[...v]\<close> iterates \<open>v\<close>: an array gives its elements, a string its
  characters, and any other JSON value is not iterable, which throws a \<open>TypeError\<close>
  (its message is the engine's and names the variable).
\<close>

fun iterate :: "json \<Rightarrow> error + json list" where
  "iterate (JArr xs) = Inr xs"
| "iterate (JStr s) = Inr (map (\<lambda>c. JStr [c]) s)"
| "iterate _ = Inl (Thrown (Some ''history is not iterable''))"


section \<open>Requests and responses of the provider\<close>

text \<open>A content part of a request: \<open>{inlineData: {mimeType, data}}\<close> or \<open>{text}\<close>.\<close>

datatype part = InlineData (mimeType: string) (data: string) | Text string

datatype schema =
    SString
  | SEnum "string list"
  | SArray schema
  | SObject "(string \<times> schema) list" "string list"

definition recipeSchema :: schema where
  "recipeSchema = SObject
     [(''title'', SString),
      (''description'', SString),
      (''cuisineStyle'', SString),
      (''difficulty'', SEnum [''Easy'', ''Medium'', ''Hard'', ''Expert'']),
      (''totalTime'', SString),
      (''ingredientsFound'', SArray SString),
      (''pantryItemsNeeded'', SArray SString),
      (''steps'', SArray (SObject
          [(''instruction'', SString), (''tip'', SString), (''duration'', SString)]
          [''instruction'']))]
     [''title'', ''description'', ''difficulty'', ''ingredientsFound'', ''steps'']"

datatype config =
    NoConfig
  | RecipeConfig (systemInstruction: string) (responseMimeType: string)
      (responseSchema: schema) (thinkingBudget: nat)
  | SpeechConfig (responseModalities: "string list") (voiceName: string)

text \<open>
  The argument of \<open>generateContent\<close>. The source writes the contents as \<open>{parts}\<close> or as
  \<open>[{parts}]\<close>; both are the list of parts here.
\<close>

record request =
  model :: string
  contents :: "part list"
  config :: config

text \<open>
  A response, with every level that the code reaches through optional chaining optional.
  \<open>response_text\<close> is the value of the SDK's \<open>text\<close> accessor, which the code reads as it is.
\<close>

datatype inline = Inline (inline_mimeType: "string option") (inline_data: "string option")

datatype rpart = RPart (part_text: "string option") (part_inlineData: "inline option")

datatype content = Content (content_parts: "rpart list option")

datatype candidate = Candidate (candidate_content: "content option")

record response =
  candidates :: "candidate list option"
  response_text :: "string option"


section \<open>The environment\<close>

text \<open>
  Everything outside the two source files: the build-time credential, the imported
  system instruction, the provider (what \<open>generateContent\<close> resolves or rejects with, and
  the log of the requests that went out), the console, \<open>crypto.randomUUID\<close> (absent on
  some platforms) and \<open>Date.now\<close> (each as the sequence of the values successive calls
  return), the platform's \<open>JSON\<close> object, and \<open>localStorage\<close>: its contents, and what
  \<open>setItem\<close> throws, if anything, when asked to store a value under a key with the present
  contents (a full quota, a window without storage); \<open>None\<close> when it stores.
\<close>

record world =
  API_KEY :: "string option"
  SYSTEM_INSTRUCTION :: string
  remote :: "request \<Rightarrow> error + response"
  sent :: "request list"
  console :: "(string \<times> error) list"
  randomUUID :: "(nat \<Rightarrow> string) option"
  uuid_calls :: nat
  clock :: "nat \<Rightarrow> int"
  clock_reads :: nat
  JSON_parse :: "string \<Rightarrow> error + json"
  JSON_stringify :: "json \<Rightarrow> string"
  localStorage :: "string \<rightharpoonup> string"
  setItem_throws :: "(string \<rightharpoonup> string) \<Rightarrow> string \<Rightarrow> string \<Rightarrow> error option"

definition getApiKey :: "world \<Rightarrow> string" where
  "getApiKey w = or_else (API_KEY w) []"

definition generateContent :: "world \<Rightarrow> request \<Rightarrow> (error + response) \<times> world" where
  "generateContent w req = (remote w req, w\<lparr>sent := sent w @ [req]\<rparr>)"

definition console_error :: "string \<Rightarrow> error \<Rightarrow> world \<Rightarrow> world" where
  "console_error label e w = w\<lparr>console := console w @ [(label, e)]\<rparr>"

definition Date_now :: "world \<Rightarrow> int \<times> world" where
  "Date_now w = (clock w (clock_reads w), w\<lparr>clock_reads := Suc (clock_reads w)\<rparr>)"

definition fresh_id :: "world \<Rightarrow> string \<times> world" where
  "fresh_id w =
     (case randomUUID w of
        Some gen \<Rightarrow> (gen (uuid_calls w), w\<lparr>uuid_calls := Suc (uuid_calls w)\<rparr>)
      | None \<Rightarrow> (let (t, w') = Date_now w in (toString t, w')))"


section \<open>The generation gateway\<close>

definition constraintText :: "string list \<Rightarrow> string" where
  "constraintText constraints =
     (if length constraints > 0
      then ''CRITICAL CONSTRAINTS: The user has the following limitations: ''
           @ join '', '' constraints
           @ ''. You MUST strictly adhere to these. Do not use equipment that is restricted (e.g. if 'No Stove', use microwave, oven, or raw prep only).''
      else [])"

definition promptText :: "string \<Rightarrow> string \<Rightarrow> string" where
  "promptText textPrompt ct =
     ''User text request: \"'' @ textPrompt @ ''\". '' @ ct @ '' Create a recipe based on this.''"

definition defaultText :: "string \<Rightarrow> string" where
  "defaultText ct = ''I have these ingredients. '' @ ct @ '' Make me something delicious.''"

definition finalPrompt :: string where
  "finalPrompt = ''Analyze the ingredients and the user request. Create a recipe.''"

text \<open>The part list that \<open>generateRecipeFromInput\<close> builds before it calls the provider.\<close>

definition recipe_parts ::
  "string list \<Rightarrow> string option \<Rightarrow> string option \<Rightarrow> string option \<Rightarrow> string list \<Rightarrow> part list" where
  "recipe_parts images audioBase64 audioMimeType textPrompt constraints =
     map (InlineData ''image/jpeg'') images
     @ (if truthy audioBase64
        then [InlineData (or_else audioMimeType ''audio/wav'') (string_value audioBase64)]
        else [])
     @ [Text (if truthy textPrompt
              then promptText (string_value textPrompt) (constraintText constraints)
              else if \<not> truthy audioBase64 then defaultText (constraintText constraints)
              else constraintText constraints)]
     @ [Text finalPrompt]"

definition recipe_request ::
  "world \<Rightarrow> string list \<Rightarrow> string option \<Rightarrow> string option \<Rightarrow> string option \<Rightarrow> string list \<Rightarrow> request" where
  "recipe_request w images audioBase64 audioMimeType textPrompt constraints =
     \<lparr>model = ''gemini-3-pro-preview'',
      contents = recipe_parts images audioBase64 audioMimeType textPrompt constraints,
      config = RecipeConfig (SYSTEM_INSTRUCTION w) ''application/json'' recipeSchema 32768\<rparr>"

text \<open>The object literal \<open>{...rawRecipe, id, createdAt, constraints}\<close>.\<close>

definition enrich :: "json \<Rightarrow> string \<Rightarrow> int \<Rightarrow> string list \<Rightarrow> json" where
  "enrich rawRecipe ident createdAt constraints =
     JObj (AList.update ''constraints'' (JArr (map JStr constraints))
            (AList.update ''createdAt'' (JNum createdAt)
              (AList.update ''id'' (JStr ident) (spread rawRecipe))))"

definition generateRecipeFromInput ::
  "world \<Rightarrow> string list \<Rightarrow> string option \<Rightarrow> string option \<Rightarrow> string option \<Rightarrow> string list
     \<Rightarrow> (error + json) \<times> world" where
  "generateRecipeFromInput w images audioBase64 audioMimeType textPrompt constraints =
     (if getApiKey w = [] then (Inl (Error ''API Key missing''), w)
      else
        let (res, w1) = generateContent w
               (recipe_request w images audioBase64 audioMimeType textPrompt constraints)
        in case res of
             Inl e \<Rightarrow> (Inl e, console_error ''Recipe Generation Error:'' e w1)
           | Inr resp \<Rightarrow>
               (case response_text resp of
                  None \<Rightarrow>
                    (Inl (Error ''No response generated''),
                     console_error ''Recipe Generation Error:'' (Error ''No response generated'') w1)
                | Some txt \<Rightarrow>
                    if txt = [] then
                      (Inl (Error ''No response generated''),
                       console_error ''Recipe Generation Error:'' (Error ''No response generated'') w1)
                    else
                      (case JSON_parse w1 txt of
                         Inl e \<Rightarrow> (Inl e, console_error ''Recipe Generation Error:'' e w1)
                       | Inr rawRecipe \<Rightarrow>
                           let (ident, w2) = fresh_id w1;
                               (createdAt, w3) = Date_now w2
                           in (Inr (enrich rawRecipe ident createdAt constraints), w3))))"

text \<open>The first part of the response that carries a non-empty inline payload.\<close>

fun first_inline_data :: "rpart list \<Rightarrow> string option" where
  "first_inline_data [] = None"
| "first_inline_data (p # ps) =
     (case part_inlineData p of
        Some (Inline m (Some d)) \<Rightarrow> (if d \<noteq> [] then Some d else first_inline_data ps)
      | _ \<Rightarrow> first_inline_data ps)"

text \<open>\<open>response.candidates?.[0]?.content?.parts\<close>, \<open>None\<close> when the chain yields \<open>undefined\<close>.\<close>

definition first_candidate_parts :: "response \<Rightarrow> rpart list option" where
  "first_candidate_parts resp =
     (case candidates resp of
        None \<Rightarrow> None
      | Some [] \<Rightarrow> None
      | Some (c # _) \<Rightarrow>
          (case candidate_content c of
             None \<Rightarrow> None
           | Some ct \<Rightarrow> content_parts ct))"

definition image_request :: "string \<Rightarrow> string \<Rightarrow> request" where
  "image_request title description =
     \<lparr>model = ''gemini-2.5-flash-image'',
      contents = [Text (''A beautiful, appetizing, professional food photo of '' @ title
                        @ ''. '' @ description @ ''. Cinematic lighting, 4k.'')],
      config = NoConfig\<rparr>"

definition generateDishImage :: "world \<Rightarrow> string \<Rightarrow> string \<Rightarrow> (error + string) \<times> world" where
  "generateDishImage w title description =
     (if getApiKey w = [] then (Inl (Error ''API Key missing''), w)
      else
        let (res, w1) = generateContent w (image_request title description)
        in case res of
             Inl e \<Rightarrow> (Inl e, console_error ''Image Gen Error:'' e w1)
           | Inr resp \<Rightarrow>
               (case first_inline_data (case first_candidate_parts resp of None \<Rightarrow> [] | Some ps \<Rightarrow> ps) of
                  Some d \<Rightarrow> (Inr d, w1)
                | None \<Rightarrow>
                    (Inl (Error ''No image data found in response''),
                     console_error ''Image Gen Error:'' (Error ''No image data found in response'') w1)))"

definition speech_request :: "string \<Rightarrow> request" where
  "speech_request txt =
     \<lparr>model = ''gemini-2.5-flash-preview-tts'',
      contents = [Text txt],
      config = SpeechConfig [''AUDIO''] ''Kore''\<rparr>"

text \<open>\<open>response.candidates?.[0]?.content?.parts?.[0]?.inlineData?.data\<close>.\<close>

definition audioData :: "response \<Rightarrow> string option" where
  "audioData resp =
     (case first_candidate_parts resp of
        None \<Rightarrow> None
      | Some [] \<Rightarrow> None
      | Some (p # _) \<Rightarrow>
          (case part_inlineData p of
             None \<Rightarrow> None
           | Some i \<Rightarrow> inline_data i))"

definition generateTTS :: "world \<Rightarrow> string \<Rightarrow> (error + string) \<times> world" where
  "generateTTS w txt =
     (if getApiKey w = [] then (Inl (Error ''API Key missing''), w)
      else
        let (res, w1) = generateContent w (speech_request txt)
        in case res of
             Inl e \<Rightarrow> (Inl e, console_error ''TTS Error:'' e w1)
           | Inr resp \<Rightarrow>
               (if truthy (audioData resp) then (Inr (string_value (audioData resp)), w1)
                else (Inl (Error ''No audio generated''),
                      console_error ''TTS Error:'' (Error ''No audio generated'') w1)))"


section \<open>The application state controller\<close>

datatype AppState =
  LANDING | ABOUT | COOKBOOK | IDLE | RECORDING | PROCESSING | ERROR | RECIPE_VIEW

text \<open>
  The five \<open>useState\<close> cells of the component. \<open>history\<close> is declared \<open>Recipe[]\<close>, but
  the mount effect stores whatever \<open>JSON.parse\<close> returns, so it is a JSON value.
\<close>

record app =
  appState :: AppState
  recipe :: "json option"
  history :: json
  error :: "string option"
  errorDetails :: "string option"

definition initial_app :: app where
  "initial_app =
     \<lparr>appState = LANDING, recipe = None, history = JArr [], error = None, errorDetails = None\<rparr>"

record CaptureData =
  images :: "string list"
  audio :: "string option"
  audioMimeType :: "string option"
  constraints :: "string list option"


text \<open>\<open>localStorage.setItem\<close>: throws and stores nothing, or stores.\<close>

definition setItem :: "string \<Rightarrow> string \<Rightarrow> world \<Rightarrow> error + world" where
  "setItem key v w =
     (case setItem_throws w (localStorage w) key v of
        Some e \<Rightarrow> Inl e
      | None \<Rightarrow> Inr (w\<lparr>localStorage := (localStorage w)(key \<mapsto> v)\<rparr>))"

text \<open>
  \<open>saveToHistory\<close>, with what it throws, if anything, beside the state it leaves. The array
  literal \<open>[newRecipe, ...history]\<close> throws before anything is done when \<open>history\<close> is not
  iterable. \<open>setHistory\<close> comes before \<open>localStorage.setItem\<close>, so when that throws the
  history in memory has already been replaced.
\<close>

definition saveToHistory :: "json \<Rightarrow> app \<times> world \<Rightarrow> error option \<times> app \<times> world" where
  "saveToHistory newRecipe = (\<lambda>(s, w).
     case iterate (history s) of
       Inl e \<Rightarrow> (Some e, s, w)
     | Inr old \<Rightarrow>
         let newHistory = JArr (newRecipe # old);
             s1 = s\<lparr>history := newHistory\<rparr>
         in (case setItem ''chefMuseHistory'' (JSON_stringify w newHistory) w of
               Inl e \<Rightarrow> (Some e, s1, w)
             | Inr w1 \<Rightarrow> (None, s1, w1)))"

text \<open>The title and the detail that \<open>handleError\<close> chooses for a message.\<close>

definition classify :: "string \<Rightarrow> string \<times> string" where
  "classify errorMessage =
     (if includes_str errorMessage ''API Key'' then
        (''Configuration Error'',
         ''The API Key is missing. Please check the environment configuration.'')
      else if includes_str errorMessage ''No response generated''
              \<or> includes_str errorMessage ''Candidate was blocked'' then
        (''Inspiration blocked'',
         ''The Muse couldn't understand the request or it was flagged. Try different wording.'')
      else if includes_str errorMessage ''fetch'' \<or> includes_str errorMessage ''network'' then
        (''Connection Lost'',
         ''Please check your internet connection and try again.'')
      else if includes_str errorMessage ''JSON'' then
        (''Creative Confusion'',
         ''The Muse hallucinated an invalid format. Trying again usually fixes this.'')
      else
        (''The Muse was silent.'',
         ''We couldn't generate a recipe. Please try again.''))"

definition handleError :: "error \<Rightarrow> app \<times> world \<Rightarrow> app \<times> world" where
  "handleError e = (\<lambda>(s, w).
     let w1 = console_error ''App Error:'' e w;
         errorMessage = or_else (message e) [];
         (msg, details) = classify errorMessage
     in (s\<lparr>error := Some msg, errorDetails := Some details, appState := ERROR\<rparr>, w1))"

text \<open>
  The two generation handlers have the same body around their call of the gateway:
  \<open>start_processing\<close> is what they do before it and \<open>finish_generation\<close> what they do with
  its outcome. The call is awaited; no other handler is taken to run while it is pending
  (the capture screen is disabled while processing).
\<close>

definition finish_generation :: "(error + json) \<times> world \<Rightarrow> app \<Rightarrow> app \<times> world" where
  "finish_generation = (\<lambda>(res, w1) s1.
     case res of
       Inl e \<Rightarrow> handleError e (s1, w1)
     | Inr generatedRecipe \<Rightarrow>
         let s2 = s1\<lparr>recipe := Some generatedRecipe\<rparr>
         in (case saveToHistory generatedRecipe (s2, w1) of
               (Some e, s3, w2) \<Rightarrow> handleError e (s3, w2)
             | (None, s3, w2) \<Rightarrow> (s3\<lparr>appState := RECIPE_VIEW\<rparr>, w2)))"

definition start_processing :: "app \<Rightarrow> app" where
  "start_processing s = s\<lparr>appState := PROCESSING, error := None, errorDetails := None\<rparr>"

definition handleCapture :: "CaptureData \<Rightarrow> app \<times> world \<Rightarrow> app \<times> world" where
  "handleCapture d = (\<lambda>(s, w).
     finish_generation
       (generateRecipeFromInput w (images d) (audio d) (audioMimeType d) None
          (case constraints d of None \<Rightarrow> [] | Some cs \<Rightarrow> cs))
       (start_processing s))"

definition handleTextGeneration :: "string \<Rightarrow> app \<times> world \<Rightarrow> app \<times> world" where
  "handleTextGeneration txt = (\<lambda>(s, w).
     finish_generation
       (generateRecipeFromInput w [] None None (Some txt) [])
       (start_processing s))"

definition handleReset :: "app \<Rightarrow> app" where
  "handleReset s = s\<lparr>appState := IDLE, recipe := None, error := None, errorDetails := None\<rparr>"

definition handleStart :: "app \<Rightarrow> app" where
  "handleStart s = s\<lparr>appState := IDLE\<rparr>"

definition handleAbout :: "app \<Rightarrow> app" where
  "handleAbout s = s\<lparr>appState := ABOUT\<rparr>"

definition handleCookbook :: "app \<Rightarrow> app" where
  "handleCookbook s = s\<lparr>appState := COOKBOOK\<rparr>"

definition handleSelectRecipe :: "json \<Rightarrow> app \<Rightarrow> app" where
  "handleSelectRecipe selected s = s\<lparr>recipe := Some selected, appState := RECIPE_VIEW\<rparr>"

definition handleBackToLanding :: "app \<Rightarrow> app" where
  "handleBackToLanding s = s\<lparr>appState := LANDING\<rparr>"


section \<open>The error categories as the specification lists them\<close>

text \<open>
  The specification gives the classification as an ordered table of categories, each with
  the substrings that select it, its title and its detail, and a fallback; the first
  category with a matching substring wins. \<open>sublist p m\<close> says that \<open>p\<close> occurs in \<open>m\<close> as
  a contiguous run.
\<close>

definition categories :: "(string list \<times> string \<times> string) list" where
  "categories =
     [([''API Key''],
       ''Configuration Error'',
       ''The API Key is missing. Please check the environment configuration.''),
      ([''No response generated'', ''Candidate was blocked''],
       ''Inspiration blocked'',
       ''The Muse couldn't understand the request or it was flagged. Try different wording.''),
      ([''fetch'', ''network''],
       ''Connection Lost'',
       ''Please check your internet connection and try again.''),
      ([''JSON''],
       ''Creative Confusion'',
       ''The Muse hallucinated an invalid format. Trying again usually fixes this.'')]"

definition fallback :: "string \<times> string" where
  "fallback = (''The Muse was silent.'', ''We couldn't generate a recipe. Please try again.'')"

fun first_match :: "(string list \<times> string \<times> string) list \<Rightarrow> string \<Rightarrow> string \<times> string" where
  "first_match [] m = fallback"
| "first_match ((patterns, title, detail) # rest) m =
     (if list_ex (\<lambda>p. sublist p m) patterns then (title, detail) else first_match rest m)"


section \<open>Concrete environments\<close>

text \<open>
  A provider that answers every request with the JSON text of a one-field recipe, on a
  platform whose \<open>JSON\<close> object is given on the texts that occur.
\<close>

definition soup_text :: string where
  "soup_text = ''{\"title\":\"Soup\"}''"

definition soup_raw :: json where
  "soup_raw = JObj [(''title'', JStr ''Soup'')]"

definition soup :: json where
  "soup = JObj [(''title'', JStr ''Soup''), (''id'', JStr ''uuid-0''),
                (''createdAt'', JNum 1700000000000), (''constraints'', JArr [JStr ''No Stove''])]"

definition soup_history_text :: string where
  "soup_history_text =
     ''[{\"title\":\"Soup\",\"id\":\"uuid-0\",\"createdAt\":1700000000000,\"constraints\":[\"No Stove\"]}]''"

definition plain_soup :: json where
  "plain_soup = JObj [(''title'', JStr ''Soup''), (''id'', JStr ''uuid-0''),
                      (''createdAt'', JNum 1700000000000), (''constraints'', JArr [])]"

definition plain_soup_history_text :: string where
  "plain_soup_history_text =
     ''[{\"title\":\"Soup\",\"id\":\"uuid-0\",\"createdAt\":1700000000000,\"constraints\":[]}]''"

definition kitchen :: world where
  "kitchen =
     \<lparr>API_KEY = Some ''secret'',
      SYSTEM_INSTRUCTION = ''You are a chef.'',
      remote = (\<lambda>req. Inr \<lparr>candidates = None, response_text = Some soup_text\<rparr>),
      sent = [],
      console = [],
      randomUUID = Some (\<lambda>n. ''uuid-'' @ string_of_nat n),
      uuid_calls = 0,
      clock = (\<lambda>n. 1700000000000 + int n),
      clock_reads = 0,
      JSON_parse = (\<lambda>s. if s = soup_text then Inr soup_raw
                         else if s = soup_history_text then Inr (JArr [soup])
                         else if s = plain_soup_history_text then Inr (JArr [plain_soup])
                         else Inl (Thrown (Some ''Unexpected token in JSON''))),
      JSON_stringify = (\<lambda>v. if v = JArr [soup] then soup_history_text
                             else if v = JArr [plain_soup] then plain_soup_history_text
                             else ''[]''),
      localStorage = Map.empty,
      setItem_throws = (\<lambda>store key v. None)\<rparr>"

text \<open>The same platform without a network, and without a credential.\<close>

definition offline :: world where
  "offline = kitchen\<lparr>remote := (\<lambda>req. Inl (Thrown (Some ''Failed to fetch'')))\<rparr>"

definition unconfigured :: world where
  "unconfigured = kitchen\<lparr>API_KEY := None\<rparr>"

text \<open>A speech provider that answers with a text part followed by the audio part.\<close>

definition chatty_parts :: "rpart list" where
  "chatty_parts =
     [RPart (Some ''Here is the narration.'') None,
      RPart None (Some (Inline (Some ''audio/L16;rate=24000'') (Some ''UklGRg=='')))]"

definition chatty :: world where
  "chatty = kitchen\<lparr>remote := (\<lambda>req.
     Inr \<lparr>candidates = Some [Candidate (Some (Content (Some chatty_parts)))],
          response_text = Some ''Here is the narration.''\<rparr>)\<rparr>"

text \<open>A speech provider that answers with the audio part first.\<close>

definition narrator :: world where
  "narrator = kitchen\<lparr>remote := (\<lambda>req.
     Inr \<lparr>candidates = Some [Candidate (Some (Content (Some (rev chatty_parts))))],
          response_text = None\<rparr>)\<rparr>"

text \<open>The same platform with its storage quota used up, with the message of one engine.\<close>

definition full_storage :: world where
  "full_storage = kitchen\<lparr>setItem_throws := (\<lambda>store key v.
     Some (Thrown (Some ''Failed to execute 'setItem' on 'Storage': Setting the value of 'chefMuseHistory' exceeded the quota.'')))\<rparr>"






definition three_shots :: CaptureData where
  "three_shots =
     \<lparr>images = [''AAAA'', ''BBBB'', ''CCCC''], audio = None, audioMimeType = None,
      constraints = Some [''No Stove'']\<rparr>"


section \<open>Basic facts\<close>

lemma string_of_nat_0: "string_of_nat 0 = ''0''"
  by code_simp

lemma getApiKey_empty_iff: "getApiKey w = [] \<longleftrightarrow> \<not> truthy (API_KEY w)"
  by (cases "API_KEY w") (simp_all add: getApiKey_def)

lemma generateRecipeFromInput_sent:
  assumes "getApiKey w \<noteq> []"
  shows "sent (snd (generateRecipeFromInput w imgs aud mime prompt cs))
         = sent w @ [recipe_request w imgs aud mime prompt cs]"
  using assms
  by (simp add: generateRecipeFromInput_def generateContent_def console_error_def fresh_id_def
      Date_now_def split: sum.splits option.splits prod.splits)

text \<open>With a credential, a call sends exactly one request, whose parts are \<open>recipe_parts\<close>.\<close>

lemma sent_contents:
  assumes "truthy (API_KEY w)"
  shows "map contents (sent (snd (generateRecipeFromInput w imgs aud mime prompt cs)))
         = map contents (sent w) @ [recipe_parts imgs aud mime prompt cs]"
proof -
  from assms have "getApiKey w \<noteq> []" by (simp add: getApiKey_empty_iff)
  then show ?thesis by (simp add: generateRecipeFromInput_sent recipe_request_def)
qed

lemma kitchen_key: "truthy (API_KEY kitchen)"
  by (simp add: kitchen_def)

lemma kitchen_sent: "sent kitchen = []"
  by (simp add: kitchen_def)

text \<open>The gateway writes to the request log and the console, and draws from the id source and the clock, only.\<close>

lemma generateRecipeFromInput_frame:
  "localStorage (snd (generateRecipeFromInput w imgs aud mime prompt cs)) = localStorage w"
  "JSON_parse (snd (generateRecipeFromInput w imgs aud mime prompt cs)) = JSON_parse w"
  "JSON_stringify (snd (generateRecipeFromInput w imgs aud mime prompt cs)) = JSON_stringify w"
  "setItem_throws (snd (generateRecipeFromInput w imgs aud mime prompt cs)) = setItem_throws w"
  by (simp_all add: generateRecipeFromInput_def generateContent_def console_error_def fresh_id_def
      Date_now_def split: sum.splits option.splits prod.splits)

lemma pair_fst: "fst g = x \<Longrightarrow> g = (x, snd g)"
  by auto

text \<open>Runs of the gateway in the concrete environments.\<close>

lemma offline_fails:
  "fst (generateRecipeFromInput offline imgs aud mime prompt cs) = Inl (Thrown (Some ''Failed to fetch''))"
  by (simp add: generateRecipeFromInput_def offline_def kitchen_def getApiKey_def generateContent_def)




lemma empty_storage: "localStorage offline = Map.empty" "localStorage kitchen = Map.empty"
  by (simp_all add: offline_def kitchen_def)

lemma three_shots_fields:
  "images three_shots = [''AAAA'', ''BBBB'', ''CCCC'']" "audio three_shots = None"
  "audioMimeType three_shots = None" "constraints three_shots = Some [''No Stove'']"
  by (simp_all add: three_shots_def)

lemma offline_capture_run:
  "generateRecipeFromInput offline (images three_shots) (audio three_shots)
     (audioMimeType three_shots) None (case constraints three_shots of None \<Rightarrow> [] | Some c \<Rightarrow> c)
   = (Inl (Thrown (Some ''Failed to fetch'')),
      snd (generateRecipeFromInput offline (images three_shots) (audio three_shots)
             (audioMimeType three_shots) None
             (case constraints three_shots of None \<Rightarrow> [] | Some c \<Rightarrow> c)))"
  by (rule pair_fst) (rule offline_fails)

lemma offline_text_run:
  "generateRecipeFromInput offline [] None None (Some ''soup'') []
   = (Inl (Thrown (Some ''Failed to fetch'')),
      snd (generateRecipeFromInput offline [] None None (Some ''soup'') []))"
  by (rule pair_fst) (rule offline_fails)




text \<open>The controller's handlers, step by step.\<close>

lemma handleError_app:
  "fst (handleError e (s, w))
     = s\<lparr>error := Some (fst (classify (or_else (message e) []))),
         errorDetails := Some (snd (classify (or_else (message e) []))),
         appState := ERROR\<rparr>"
  by (simp add: handleError_def split: prod.splits)

lemma handleError_world:
  "snd (handleError e (s, w)) = console_error ''App Error:'' e w"
  by (simp add: handleError_def split: prod.splits)

lemma finish_generation_failed:
  "fst (finish_generation (Inl e, w1) s1)
     = s1\<lparr>error := Some (fst (classify (or_else (message e) []))),
          errorDetails := Some (snd (classify (or_else (message e) []))),
          appState := ERROR\<rparr>"
  "snd (finish_generation (Inl e, w1) s1) = console_error ''App Error:'' e w1"
  by (simp_all add: finish_generation_def handleError_app handleError_world)

lemma finish_generation_saved:
  assumes "iterate (history s1) = Inr hs"
    and "setItem_throws w1 (localStorage w1) ''chefMuseHistory'' (JSON_stringify w1 (JArr (r # hs))) = None"
  shows "finish_generation (Inr r, w1) s1
         = (s1\<lparr>recipe := Some r, history := JArr (r # hs), appState := RECIPE_VIEW\<rparr>,
            w1\<lparr>localStorage := (localStorage w1)(''chefMuseHistory'' \<mapsto> JSON_stringify w1 (JArr (r # hs)))\<rparr>)"
  using assms by (simp add: finish_generation_def saveToHistory_def setItem_def Let_def)

lemma finish_generation_not_iterable:
  assumes "iterate (history s1) = Inl e"
  shows "fst (finish_generation (Inr r, w1) s1)
         = s1\<lparr>recipe := Some r,
              error := Some (fst (classify (or_else (message e) []))),
              errorDetails := Some (snd (classify (or_else (message e) []))),
              appState := ERROR\<rparr>"
    and "snd (finish_generation (Inr r, w1) s1) = console_error ''App Error:'' e w1"
  using assms
  by (simp_all add: finish_generation_def saveToHistory_def handleError_app handleError_world Let_def)

text \<open>When \<open>setItem\<close> throws, the history in memory has the new recipe and the state is \<open>ERROR\<close>.\<close>

lemma finish_generation_not_stored:
  assumes "iterate (history s1) = Inr hs"
    and "setItem_throws w1 (localStorage w1) ''chefMuseHistory'' (JSON_stringify w1 (JArr (r # hs))) = Some e"
  shows "fst (finish_generation (Inr r, w1) s1)
         = s1\<lparr>recipe := Some r, history := JArr (r # hs),
              error := Some (fst (classify (or_else (message e) []))),
              errorDetails := Some (snd (classify (or_else (message e) []))),
              appState := ERROR\<rparr>"
    and "snd (finish_generation (Inr r, w1) s1) = console_error ''App Error:'' e w1"
  using assms
  by (simp_all add: finish_generation_def saveToHistory_def setItem_def handleError_app
      handleError_world Let_def)

lemma handleCapture_unfold:
  "handleCapture d (s, w)
   = finish_generation
       (generateRecipeFromInput w (images d) (audio d) (audioMimeType d) None
          (case constraints d of None \<Rightarrow> [] | Some c \<Rightarrow> c))
       (start_processing s)"
  by (simp add: handleCapture_def)

lemma handleTextGeneration_unfold:
  "handleTextGeneration txt (s, w)
   = finish_generation (generateRecipeFromInput w [] None None (Some txt) []) (start_processing s)"
  by (simp add: handleTextGeneration_def)

lemma failed_generation_keeps_history:
  assumes "g = (Inl e, w1)" and "localStorage w1 = localStorage w"
  shows "history (fst (finish_generation g (start_processing s))) = history s
         \<and> localStorage (snd (finish_generation g (start_processing s))) = localStorage w"
  using assms
  by (simp add: finish_generation_failed start_processing_def console_error_def)

lemma stored_generation_prepends:
  assumes "g = (Inr r, w1)" and "localStorage w1 = localStorage w"
    and "JSON_stringify w1 = JSON_stringify w" and "setItem_throws w1 = setItem_throws w"
    and "iterate (history s) = Inr hs"
    and "setItem_throws w (localStorage w) ''chefMuseHistory'' (JSON_stringify w (JArr (r # hs))) = None"
  shows "history (fst (finish_generation g (start_processing s))) = JArr (r # hs)
         \<and> appState (fst (finish_generation g (start_processing s))) = RECIPE_VIEW
         \<and> localStorage (snd (finish_generation g (start_processing s)))
             = (localStorage w)(''chefMuseHistory'' \<mapsto> JSON_stringify w (JArr (r # hs)))"
proof -
  have "iterate (history (start_processing s)) = Inr hs"
    using assms(5) by (simp add: start_processing_def)
  moreover have "setItem_throws w1 (localStorage w1) ''chefMuseHistory''
                   (JSON_stringify w1 (JArr (r # hs))) = None"
    using assms(2,3,4,6) by simp
  ultimately show ?thesis
    using assms(1,2,3) by (simp add: finish_generation_saved)
qed

text \<open>A generation that fails in the gateway leaves the history and the storage alone.\<close>

lemma gateway_failure_keeps_history:
  "generateRecipeFromInput w (images d) (audio d) (audioMimeType d) None
     (case constraints d of None \<Rightarrow> [] | Some c \<Rightarrow> c) = (Inl e, w1)
   \<Longrightarrow> history (fst (handleCapture d (s, w))) = history s
       \<and> localStorage (snd (handleCapture d (s, w))) = localStorage w"
  "generateRecipeFromInput w [] None None (Some txt) [] = (Inl e, w1)
   \<Longrightarrow> history (fst (handleTextGeneration txt (s, w))) = history s
       \<and> localStorage (snd (handleTextGeneration txt (s, w))) = localStorage w"
proof -
  have ls: "localStorage w1 = localStorage w"
    if "generateRecipeFromInput w i a m p c = (x, w1)" for x i a m p c
    using generateRecipeFromInput_frame(1) [of w i a m p c] that by simp
  show "history (fst (handleCapture d (s, w))) = history s
        \<and> localStorage (snd (handleCapture d (s, w))) = localStorage w"
    if "generateRecipeFromInput w (images d) (audio d) (audioMimeType d) None
          (case constraints d of None \<Rightarrow> [] | Some c \<Rightarrow> c) = (Inl e, w1)"
    unfolding handleCapture_unfold
    by (rule failed_generation_keeps_history [OF that ls [OF that]])
  show "history (fst (handleTextGeneration txt (s, w))) = history s
        \<and> localStorage (snd (handleTextGeneration txt (s, w))) = localStorage w"
    if "generateRecipeFromInput w [] None None (Some txt) [] = (Inl e, w1)"
    unfolding handleTextGeneration_unfold
    by (rule failed_generation_keeps_history [OF that ls [OF that]])
qed



text \<open>The source's substring test is the library's contiguous-sublist relation.\<close>

lemma includes_str_sublist: "includes_str s sub \<longleftrightarrow> sublist sub s"
  by (induction s) (simp_all add: sublist_Cons_right)

text \<open>\<open>first_match\<close> returns the pair of the first category that matches, the fallback if none does.\<close>

lemma first_match_first:
  assumes "\<forall>c \<in> set pre. \<not> list_ex (\<lambda>p. sublist p m) (fst c)"
    and "list_ex (\<lambda>p. sublist p m) patterns"
  shows "first_match (pre @ (patterns, title, detail) # rest) m = (title, detail)"
  using assms by (induction pre) auto

lemma first_match_none:
  assumes "\<forall>c \<in> set cats. \<not> list_ex (\<lambda>p. sublist p m) (fst c)"
  shows "first_match cats m = fallback"
  using assms by (induction cats) auto

lemma classify_first_match: "classify m = first_match categories m"
  by (simp add: classify_def categories_def fallback_def includes_str_sublist)

text \<open>The constraint text is empty or begins with the letter C, so it is neither template.\<close>

lemma constraintText_head: "constraintText cs = [] \<or> hd (constraintText cs) = CHR ''C''"
  by (simp add: constraintText_def)

lemma constraintText_not_template:
  "constraintText cs \<noteq> ''User text request: \"'' @ t @ rest"
  "constraintText cs \<noteq> ''I have these ingredients. '' @ rest"
  using constraintText_head [of cs] by auto

lemma audioData_first_part:
  "(if truthy (audioData resp) then Inr (string_value (audioData resp))
    else Inl (Error ''No audio generated''))
   = (case first_inline_data (take 1 (case first_candidate_parts resp of None \<Rightarrow> [] | Some ps \<Rightarrow> ps)) of
        Some d \<Rightarrow> Inr d
      | None \<Rightarrow> Inl (Error ''No audio generated''))"
  by (auto simp add: audioData_def split: option.splits list.splits inline.splits)


section \<open>Assembly of the recipe request\<close>

text \<open>
  Claim C1. A call with exactly three images, no audio and no text prompt (absent or
  empty, which the code does not tell apart) sends one request whose parts are the three
  images tagged \<open>image/jpeg\<close>, then the default instruction, then the final analysis
  instruction, and nothing else. The constraint text stands inside the default
  instruction and is empty when there are no constraints.
\<close>

theorem three_images_request:
  assumes "truthy (API_KEY w)" and "\<not> truthy aud" and "\<not> truthy prompt"
  shows "map contents (sent (snd (generateRecipeFromInput w [i1, i2, i3] aud mime prompt cs)))
         = map contents (sent w)
           @ [[InlineData ''image/jpeg'' i1, InlineData ''image/jpeg'' i2, InlineData ''image/jpeg'' i3,
               Text (''I have these ingredients. '' @ constraintText cs
                     @ '' Make me something delicious.''),
               Text ''Analyze the ingredients and the user request. Create a recipe.'']]"
  using assms(2,3)
  by (simp add: sent_contents [OF assms(1)] recipe_parts_def defaultText_def finalPrompt_def)

theorem three_images_request_witness:
  "truthy (API_KEY kitchen) \<and> \<not> truthy None \<and> \<not> truthy (Some [])
   \<and> map contents (sent (snd (generateRecipeFromInput kitchen [''AAAA'', ''BBBB'', ''CCCC'']
                                   None None (Some []) [])))
       = [[InlineData ''image/jpeg'' ''AAAA'', InlineData ''image/jpeg'' ''BBBB'',
           InlineData ''image/jpeg'' ''CCCC'',
           Text ''I have these ingredients.  Make me something delicious.'',
           Text ''Analyze the ingredients and the user request. Create a recipe.'']]"
  using three_images_request [of kitchen None "Some []" "''AAAA''" "''BBBB''" "''CCCC''" None "[]"]
  by (simp add: kitchen_key kitchen_sent constraintText_def)

text \<open>
  Claim C2, as stated, fails: with the constraint \<open>No Stove\<close>, no audio and no prompt, the
  text part begins with the lead-in \<open>I have these ingredients.\<close>, not with the directive.
\<close>

theorem directive_not_prefix:
  "map contents (sent (snd (generateRecipeFromInput kitchen [] None None None [''No Stove''])))
   = [[Text (''I have these ingredients. '' @ constraintText [''No Stove'']
             @ '' Make me something delicious.''),
       Text ''Analyze the ingredients and the user request. Create a recipe.'']]
   \<and> \<not> prefix (constraintText [''No Stove''])
              (''I have these ingredients. '' @ constraintText [''No Stove'']
               @ '' Make me something delicious.'')"
  by (simp add: sent_contents [OF kitchen_key] kitchen_sent recipe_parts_def defaultText_def
      finalPrompt_def constraintText_def)

text \<open>
  Claim C2, amended. With a non-empty constraint list the text part contains the
  directive, which enumerates the constraints joined by a comma and a space and mandates
  strict adherence. The directive follows the lead-in of the branch taken (the quoted
  text prompt, or the ingredients sentence) and is followed by that branch's closing
  sentence; it stands at the start of the text part only when audio is present and no
  text prompt is given, where it is the whole text part.
\<close>

theorem directive_inside_text_part:
  assumes "truthy (API_KEY w)" and "cs \<noteq> []"
  shows "map contents (sent (snd (generateRecipeFromInput w imgs aud mime prompt cs)))
         = map contents (sent w)
           @ [map (InlineData ''image/jpeg'') imgs
              @ (if truthy aud then [InlineData (or_else mime ''audio/wav'') (string_value aud)] else [])
              @ [Text ((if truthy prompt then ''User text request: \"'' @ string_value prompt @ ''\". ''
                        else if \<not> truthy aud then ''I have these ingredients. '' else [])
                       @ (''CRITICAL CONSTRAINTS: The user has the following limitations: ''
                          @ join '', '' cs
                          @ ''. You MUST strictly adhere to these. Do not use equipment that is restricted (e.g. if 'No Stove', use microwave, oven, or raw prep only).'')
                       @ (if truthy prompt then '' Create a recipe based on this.''
                          else if \<not> truthy aud then '' Make me something delicious.'' else [])),
                 Text ''Analyze the ingredients and the user request. Create a recipe.'']]"
  using assms(2)
  by (simp add: sent_contents [OF assms(1)] recipe_parts_def defaultText_def promptText_def
      finalPrompt_def constraintText_def)

theorem directive_inside_text_part_witness:
  "truthy (API_KEY kitchen) \<and> [''No Stove''] \<noteq> []
   \<and> map contents (sent (snd (generateRecipeFromInput kitchen [] None None (Some ''soup'') [''No Stove''])))
       = [[Text ''User text request: \"soup\". CRITICAL CONSTRAINTS: The user has the following limitations: No Stove. You MUST strictly adhere to these. Do not use equipment that is restricted (e.g. if 'No Stove', use microwave, oven, or raw prep only). Create a recipe based on this.'',
           Text ''Analyze the ingredients and the user request. Create a recipe.'']]"
  using directive_inside_text_part [of kitchen "[''No Stove'']" "[]" None None "Some ''soup''"]
  by (simp add: kitchen_key kitchen_sent)


section \<open>The credential check\<close>

text \<open>
  Claim C4. When the credential is absent (undefined or the empty string), each of the
  three gateway operations fails with the error \<open>API Key missing\<close> and leaves the
  environment as it was: no request is built, none is added to the log of requests sent,
  and nothing is written to the console.
\<close>

theorem missing_key_fails_first:
  assumes "\<not> truthy (API_KEY w)"
  shows "generateRecipeFromInput w imgs aud mime prompt cs = (Inl (Error ''API Key missing''), w)
         \<and> generateDishImage w title description = (Inl (Error ''API Key missing''), w)
         \<and> generateTTS w txt = (Inl (Error ''API Key missing''), w)"
  using assms
  by (simp add: getApiKey_empty_iff [symmetric] generateRecipeFromInput_def generateDishImage_def
      generateTTS_def)

theorem missing_key_fails_first_witness:
  "\<not> truthy (API_KEY unconfigured)
   \<and> generateRecipeFromInput unconfigured [''AAAA''] None None None []
       = (Inl (Error ''API Key missing''), unconfigured)
   \<and> generateDishImage unconfigured ''Soup'' ''Warm.'' = (Inl (Error ''API Key missing''), unconfigured)
   \<and> generateTTS unconfigured ''Stir.'' = (Inl (Error ''API Key missing''), unconfigured)
   \<and> sent unconfigured = []"
  using missing_key_fails_first [of unconfigured "[''AAAA'']" None None None "[]" "''Soup''" "''Warm.''" "''Stir.''"]
  by (simp add: unconfigured_def kitchen_def)


section \<open>Audio without a text prompt\<close>

text \<open>
  Claim C3. When audio is present (a non-empty payload) and no text prompt is supplied,
  the request is the images, the audio part, a text part that is exactly the constraint
  text, and the final analysis instruction. The constraint text of an empty constraint
  list is the empty string. No part of the request is an instance of the text-prompt
  template or of the default instruction, whatever would be interpolated into them.
\<close>

theorem audio_only_text_part:
  assumes "truthy (API_KEY w)" and "truthy aud" and "\<not> truthy prompt"
  shows "map contents (sent (snd (generateRecipeFromInput w imgs aud mime prompt cs)))
         = map contents (sent w)
           @ [map (InlineData ''image/jpeg'') imgs
              @ [InlineData (or_else mime ''audio/wav'') (string_value aud),
                 Text (constraintText cs),
                 Text ''Analyze the ingredients and the user request. Create a recipe.'']]
         \<and> constraintText [] = []
         \<and> (\<forall>t ct. Text (''User text request: \"'' @ t @ ''\". '' @ ct @ '' Create a recipe based on this.'')
                  \<notin> set (last (map contents
                        (sent (snd (generateRecipeFromInput w imgs aud mime prompt cs))))))
         \<and> (\<forall>ct. Text (''I have these ingredients. '' @ ct @ '' Make me something delicious.'')
                  \<notin> set (last (map contents
                        (sent (snd (generateRecipeFromInput w imgs aud mime prompt cs))))))"
proof -
  have parts: "recipe_parts imgs aud mime prompt cs
               = map (InlineData ''image/jpeg'') imgs
                 @ [InlineData (or_else mime ''audio/wav'') (string_value aud),
                    Text (constraintText cs),
                    Text ''Analyze the ingredients and the user request. Create a recipe.'']"
    using assms(2,3) by (simp add: recipe_parts_def finalPrompt_def)
  have a: "map contents (sent (snd (generateRecipeFromInput w imgs aud mime prompt cs)))
           = map contents (sent w) @ [recipe_parts imgs aud mime prompt cs]"
    by (rule sent_contents [OF assms(1)])
  have b: "constraintText [] = []"
    by (simp add: constraintText_def)
  have c: "Text (''User text request: \"'' @ t @ ''\". '' @ ct @ '' Create a recipe based on this.'')
             \<notin> set (recipe_parts imgs aud mime prompt cs)" for t ct
    using constraintText_not_template(1) [of cs t "''\". '' @ ct @ '' Create a recipe based on this.''"]
    by (auto simp add: parts)
  have d: "Text (''I have these ingredients. '' @ ct @ '' Make me something delicious.'')
             \<notin> set (recipe_parts imgs aud mime prompt cs)" for ct
    using constraintText_not_template(2) [of cs "ct @ '' Make me something delicious.''"]
    by (auto simp add: parts)
  from b c d show ?thesis
    unfolding a by (simp add: parts)
qed

theorem audio_only_text_part_witness:
  "truthy (API_KEY kitchen) \<and> truthy (Some ''T2dnUw=='') \<and> \<not> truthy None
   \<and> map contents (sent (snd (generateRecipeFromInput kitchen [''AAAA''] (Some ''T2dnUw=='')
                                   (Some ''audio/webm'') None [])))
       = [[InlineData ''image/jpeg'' ''AAAA'', InlineData ''audio/webm'' ''T2dnUw=='', Text [],
           Text ''Analyze the ingredients and the user request. Create a recipe.'']]"
  using audio_only_text_part [of kitchen "Some ''T2dnUw==''" None "[''AAAA'']" "Some ''audio/webm''" "[]"]
  by (simp add: kitchen_key kitchen_sent)


section \<open>Speech synthesis\<close>

text \<open>
  Claim C7, as stated, fails: when the provider answers with a text part followed by an
  audio part, the response holds an audio payload, yet the operation fails with
  \<open>No audio generated\<close>, because it reads the first part only.
\<close>

theorem speech_ignores_later_parts:
  "remote chatty (speech_request ''Stir well.'')
   = Inr \<lparr>candidates = Some [Candidate (Some (Content (Some
             [RPart (Some ''Here is the narration.'') None,
              RPart None (Some (Inline (Some ''audio/L16;rate=24000'') (Some ''UklGRg=='')))])))],
          response_text = Some ''Here is the narration.''\<rparr>
   \<and> fst (generateTTS chatty ''Stir well.'') = Inl (Error ''No audio generated'')
   \<and> first_inline_data
        [RPart (Some ''Here is the narration.'') None,
         RPart None (Some (Inline (Some ''audio/L16;rate=24000'') (Some ''UklGRg=='')))]
       = Some ''UklGRg=='' "
  by (simp add: generateTTS_def chatty_def kitchen_def getApiKey_def generateContent_def
      chatty_parts_def audioData_def first_candidate_parts_def)

text \<open>
  Claim C7, amended. With a credential, the operation returns the inline payload of the
  first content part of the first candidate when that part carries a non-empty one, and
  fails with \<open>No audio generated\<close> exactly when it does not; parts after the first are
  never read. A failure of the provider is passed on unchanged.
\<close>

theorem speech_reads_first_part:
  assumes "truthy (API_KEY w)"
  shows "fst (generateTTS w txt)
         = (case remote w (speech_request txt) of
              Inl e \<Rightarrow> Inl e
            | Inr resp \<Rightarrow>
                (case first_inline_data
                        (take 1 (case first_candidate_parts resp of None \<Rightarrow> [] | Some ps \<Rightarrow> ps)) of
                   Some d \<Rightarrow> Inr d
                 | None \<Rightarrow> Inl (Error ''No audio generated'')))"
proof -
  from assms have key: "getApiKey w \<noteq> []" by (simp add: getApiKey_empty_iff)
  show ?thesis
  proof (cases "remote w (speech_request txt)")
    case (Inl e)
    with key show ?thesis by (simp add: generateTTS_def generateContent_def)
  next
    case (Inr resp)
    with key have "fst (generateTTS w txt)
                   = (if truthy (audioData resp) then Inr (string_value (audioData resp))
                      else Inl (Error ''No audio generated''))"
      by (simp add: generateTTS_def generateContent_def)
    with Inr show ?thesis by (simp add: audioData_first_part)
  qed
qed

theorem speech_reads_first_part_witness:
  "truthy (API_KEY narrator)
   \<and> fst (generateTTS narrator ''Stir well.'') = Inr ''UklGRg=='' "
  using speech_reads_first_part [of narrator "''Stir well.''"]
  by (simp add: narrator_def kitchen_def chatty_parts_def first_candidate_parts_def)


section \<open>The returned recipe\<close>

text \<open>
  Claim C8. When the provider answers with a non-empty text that parses as JSON, the call
  returns an object whose properties are those of the parsed value (for a parsed object,
  \<open>spread\<close> is its property list) with \<open>id\<close>, \<open>createdAt\<close> and \<open>constraints\<close> set: \<open>id\<close> is the
  next value of \<open>crypto.randomUUID\<close>, or the decimal string of the clock where the platform
  has none; \<open>createdAt\<close> is the reading of the clock taken next; \<open>constraints\<close> is the
  caller's list. Every other property is that of the parsed value. The call advances the
  id source and the clock by what it drew, so a later call draws later values: the id is
  as unique as the values of the platform's generator are distinct.
\<close>

theorem recipe_is_parsed_object_enriched:
  assumes "truthy (API_KEY w)"
    and "remote w (recipe_request w imgs aud mime prompt cs) = Inr resp"
    and "response_text resp = Some txt" and "txt \<noteq> []"
    and "JSON_parse w txt = Inr raw"
  shows "\<exists>fs. fst (generateRecipeFromInput w imgs aud mime prompt cs) = Inr (JObj fs)
              \<and> map_of fs = (map_of (spread raw))
                   (''id'' \<mapsto> JStr (case randomUUID w of
                                      Some gen \<Rightarrow> gen (uuid_calls w)
                                    | None \<Rightarrow> toString (clock w (clock_reads w))),
                    ''createdAt'' \<mapsto> JNum (clock w (case randomUUID w of
                                                    Some gen \<Rightarrow> clock_reads w
                                                  | None \<Rightarrow> Suc (clock_reads w))),
                    ''constraints'' \<mapsto> JArr (map JStr cs))
              \<and> uuid_calls (snd (generateRecipeFromInput w imgs aud mime prompt cs))
                  = (case randomUUID w of Some gen \<Rightarrow> Suc (uuid_calls w) | None \<Rightarrow> uuid_calls w)
              \<and> clock_reads (snd (generateRecipeFromInput w imgs aud mime prompt cs))
                  = (case randomUUID w of
                       Some gen \<Rightarrow> Suc (clock_reads w)
                     | None \<Rightarrow> Suc (Suc (clock_reads w)))"
proof -
  from assms(1) have key: "getApiKey w \<noteq> []" by (simp add: getApiKey_empty_iff)
  show ?thesis
    using key assms(2-5)
    by (cases "randomUUID w")
       (simp_all add: generateRecipeFromInput_def generateContent_def fresh_id_def Date_now_def
          enrich_def update_conv')
qed

theorem recipe_is_parsed_object_enriched_witness:
  "truthy (API_KEY kitchen)
   \<and> remote kitchen (recipe_request kitchen [''AAAA'', ''BBBB'', ''CCCC''] None None None [''No Stove''])
       = Inr \<lparr>candidates = None, response_text = Some soup_text\<rparr>
   \<and> soup_text \<noteq> []
   \<and> JSON_parse kitchen soup_text = Inr (JObj [(''title'', JStr ''Soup'')])
   \<and> (\<exists>fs. fst (generateRecipeFromInput kitchen [''AAAA'', ''BBBB'', ''CCCC''] None None None [''No Stove''])
              = Inr (JObj fs)
            \<and> map_of fs = [''title'' \<mapsto> JStr ''Soup'', ''id'' \<mapsto> JStr ''uuid-0'',
                           ''createdAt'' \<mapsto> JNum 1700000000000,
                           ''constraints'' \<mapsto> JArr [JStr ''No Stove'']])
   \<and> uuid_calls (snd (generateRecipeFromInput kitchen [''AAAA'', ''BBBB'', ''CCCC''] None None None
                         [''No Stove''])) = 1"
proof -
  have a: "remote kitchen (recipe_request kitchen [''AAAA'', ''BBBB'', ''CCCC''] None None None [''No Stove''])
           = Inr \<lparr>candidates = None, response_text = Some soup_text\<rparr>"
    by (simp add: kitchen_def)
  have b: "response_text \<lparr>candidates = None, response_text = Some soup_text\<rparr> = Some soup_text"
    by simp
  have c: "soup_text \<noteq> []"
    by (simp add: soup_text_def)
  have d: "JSON_parse kitchen soup_text = Inr (JObj [(''title'', JStr ''Soup'')])"
    by (simp add: kitchen_def soup_raw_def)
  have e: "randomUUID kitchen = Some (\<lambda>n. ''uuid-'' @ string_of_nat n)" "uuid_calls kitchen = 0"
    "clock kitchen = (\<lambda>n. 1700000000000 + int n)" "clock_reads kitchen = 0"
    by (simp_all add: kitchen_def)
  from recipe_is_parsed_object_enriched [OF kitchen_key a b c d] a c d
  show ?thesis
    by (auto simp add: e string_of_nat_0 kitchen_key)
qed


section \<open>Classification of failures\<close>

text \<open>
  Claim C5. For every failure value, \<open>handleError\<close> takes the failure's message (the empty
  string when it has none), tests the categories of the specification's table in its
  order (credential, empty response or blocked candidate, network or fetch, JSON), and
  stores the title and the detail of the first category one of whose substrings occurs
  in the message, or the fallback pair when none does; it sets the state to \<open>ERROR\<close> and
  logs the failure.
\<close>

theorem handleError_first_match:
  "handleError e (s, w)
   = (s\<lparr>error := Some (fst (first_match categories (or_else (message e) []))),
        errorDetails := Some (snd (first_match categories (or_else (message e) []))),
        appState := ERROR\<rparr>,
      console_error ''App Error:'' e w)"
  by (simp add: handleError_def classify_first_match split: prod.splits)

text \<open>A message that matches several categories gets the first of them.\<close>

lemma first_match_examples:
  "first_match categories ''API Key not valid: fetch failed'' = hd (map snd categories)"
  "fst (first_match categories ''Failed to fetch JSON'') = ''Connection Lost''"
  "fst (first_match categories ''Unexpected token in JSON'') = ''Creative Confusion''"
  "fst (first_match categories ''Candidate was blocked'') = ''Inspiration blocked''"
  "fst (first_match categories []) = ''The Muse was silent.''"
  by (simp_all add: categories_def fallback_def includes_str_sublist [symmetric])


section \<open>History\<close>

text \<open>
  Claim C6 does not hold of the code. \<open>saveToHistory\<close> replaces the history in memory
  before it writes to \<open>localStorage\<close>, inside the \<open>try\<close> of the handler. With the storage
  quota used up, a capture whose generation succeeds ends in the state \<open>ERROR\<close>, with the
  message of a generation that failed, while the history in memory already has the new
  recipe in front and nothing has been persisted. (A generation that fails in the gateway
  does leave both as they were: \<open>gateway_failure_keeps_history\<close>.)
\<close>

theorem quota_error_after_history_update:
  "fst (generateRecipeFromInput full_storage [''AAAA'', ''BBBB'', ''CCCC''] None None None [''No Stove''])
     = Inr soup
   \<and> history initial_app = JArr []
   \<and> fst (handleCapture three_shots (initial_app, full_storage))
     = \<lparr>appState = ERROR, recipe = Some soup, history = JArr [soup],
        error = Some ''The Muse was silent.'',
        errorDetails = Some ''We couldn't generate a recipe. Please try again.''\<rparr>
   \<and> localStorage full_storage = Map.empty
   \<and> localStorage (snd (handleCapture three_shots (initial_app, full_storage))) = Map.empty"
proof -
  have g: "fst (generateRecipeFromInput full_storage [''AAAA'', ''BBBB'', ''CCCC''] None None None
                  [''No Stove'']) = Inr soup"
    by (simp add: generateRecipeFromInput_def full_storage_def kitchen_def getApiKey_def
        generateContent_def soup_text_def fresh_id_def Date_now_def enrich_def soup_raw_def soup_def
        string_of_nat_0)
  have run: "generateRecipeFromInput full_storage (images three_shots) (audio three_shots)
               (audioMimeType three_shots) None
               (case constraints three_shots of None \<Rightarrow> [] | Some c \<Rightarrow> c)
             = (Inr soup,
                snd (generateRecipeFromInput full_storage [''AAAA'', ''BBBB'', ''CCCC''] None None None
                       [''No Stove'']))"
    by (rule pair_fst [THEN trans]) (simp_all add: three_shots_fields g)
  have it: "iterate (history (start_processing initial_app)) = Inr []"
    by (simp add: start_processing_def initial_app_def)
  have th: "setItem_throws (snd (generateRecipeFromInput full_storage [''AAAA'', ''BBBB'', ''CCCC'']
                                   None None None [''No Stove'']))
              store key v
            = Some (Thrown (Some ''Failed to execute 'setItem' on 'Storage': Setting the value of 'chefMuseHistory' exceeded the quota.''))"
    for store key v
    by (simp add: generateRecipeFromInput_frame full_storage_def)
  have cl: "classify ''Failed to execute 'setItem' on 'Storage': Setting the value of 'chefMuseHistory' exceeded the quota.''
            = (''The Muse was silent.'', ''We couldn't generate a recipe. Please try again.'')"
    by (simp add: classify_def)
  have a: "fst (handleCapture three_shots (initial_app, full_storage))
           = \<lparr>appState = ERROR, recipe = Some soup, history = JArr [soup],
              error = Some ''The Muse was silent.'',
              errorDetails = Some ''We couldn't generate a recipe. Please try again.''\<rparr>"
    unfolding handleCapture_unfold run finish_generation_not_stored(1) [OF it th]
    by (simp add: cl start_processing_def initial_app_def)
  have b: "localStorage (snd (handleCapture three_shots (initial_app, full_storage))) = Map.empty"
    unfolding handleCapture_unfold run finish_generation_not_stored(2) [OF it th]
    by (simp add: console_error_def generateRecipeFromInput_frame full_storage_def kitchen_def)
  have c: "localStorage full_storage = Map.empty"
    by (simp add: full_storage_def kitchen_def)
  from g a b c show ?thesis
    by (simp add: initial_app_def)
qed





section \<open>The failure transition\<close>

text \<open>
  Claim C10. \<open>handleError\<close> changes three cells of the controller and no other: the error
  message, the error details and the state, which becomes \<open>ERROR\<close>; the current recipe is
  as before. The same holds for a whole generation that fails, from either handler:
  the state afterwards is the state before with those three cells set.
\<close>

theorem failure_touches_only_error_cells:
  "fst (handleError e (s, w))
     = s\<lparr>error := Some (fst (classify (or_else (message e) []))),
         errorDetails := Some (snd (classify (or_else (message e) []))),
         appState := ERROR\<rparr>
   \<and> recipe (fst (handleError e (s, w))) = recipe s
   \<and> (\<forall>e w1. generateRecipeFromInput w (images d) (audio d) (audioMimeType d) None
              (case constraints d of None \<Rightarrow> [] | Some c \<Rightarrow> c) = (Inl e, w1)
        \<longrightarrow> fst (handleCapture d (s, w))
              = s\<lparr>error := Some (fst (classify (or_else (message e) []))),
                  errorDetails := Some (snd (classify (or_else (message e) []))),
                  appState := ERROR\<rparr>
            \<and> recipe (fst (handleCapture d (s, w))) = recipe s)
   \<and> (\<forall>e w1. generateRecipeFromInput w [] None None (Some txt) [] = (Inl e, w1)
        \<longrightarrow> fst (handleTextGeneration txt (s, w))
              = s\<lparr>error := Some (fst (classify (or_else (message e) []))),
                  errorDetails := Some (snd (classify (or_else (message e) []))),
                  appState := ERROR\<rparr>
            \<and> recipe (fst (handleTextGeneration txt (s, w))) = recipe s)"
  by (simp add: handleError_app handleCapture_unfold handleTextGeneration_unfold
      finish_generation_failed start_processing_def)

theorem failure_touches_only_error_cells_witness:
  "fst (generateRecipeFromInput offline [''AAAA'', ''BBBB'', ''CCCC''] None None None [''No Stove''])
     = Inl (Thrown (Some ''Failed to fetch''))
   \<and> fst (handleCapture three_shots (initial_app\<lparr>recipe := Some soup\<rparr>, offline))
     = \<lparr>appState = ERROR, recipe = Some soup, history = JArr [],
        error = Some ''Connection Lost'',
        errorDetails = Some ''Please check your internet connection and try again.''\<rparr>
   \<and> fst (generateRecipeFromInput offline [] None None (Some ''soup'') [])
     = Inl (Thrown (Some ''Failed to fetch''))
   \<and> fst (handleTextGeneration ''soup'' (initial_app\<lparr>recipe := Some soup\<rparr>, offline))
     = \<lparr>appState = ERROR, recipe = Some soup, history = JArr [],
        error = Some ''Connection Lost'',
        errorDetails = Some ''Please check your internet connection and try again.''\<rparr>"
proof -
  note t = failure_touches_only_error_cells
    [of "Thrown (Some ''Failed to fetch'')" "initial_app\<lparr>recipe := Some soup\<rparr>" offline
        three_shots "''soup''"]
  have cl: "classify ''Failed to fetch''
            = (''Connection Lost'', ''Please check your internet connection and try again.'')"
    by (simp add: classify_def)
  have a: "fst (handleCapture three_shots (initial_app\<lparr>recipe := Some soup\<rparr>, offline))
           = \<lparr>appState = ERROR, recipe = Some soup, history = JArr [],
              error = Some ''Connection Lost'',
              errorDetails = Some ''Please check your internet connection and try again.''\<rparr>"
    using t [THEN conjunct2, THEN conjunct2, THEN conjunct1, rule_format, OF offline_capture_run]
    by (simp add: cl initial_app_def)
  have b: "fst (handleTextGeneration ''soup'' (initial_app\<lparr>recipe := Some soup\<rparr>, offline))
           = \<lparr>appState = ERROR, recipe = Some soup, history = JArr [],
              error = Some ''Connection Lost'',
              errorDetails = Some ''Please check your internet connection and try again.''\<rparr>"
    using t [THEN conjunct2, THEN conjunct2, THEN conjunct2, rule_format, OF offline_text_run]
    by (simp add: cl initial_app_def)
  from a b show ?thesis
    by (simp add: offline_fails)
qed

end
